theory Spec2Isabelle
  imports Main "HOL-Library.Sublist"
begin

section \<open>Creator Studio AI: workflow orchestrator, selection helper, poller\<close>

text \<open>
  A shallow embedding of the parts of the repository that chain generation calls
  (\<^verbatim>\<open>services/geminiService.ts\<close>: \<^verbatim>\<open>parseJsonFromText\<close>, \<^verbatim>\<open>selectBestOption\<close>,
  \<^verbatim>\<open>runFullWorkflow\<close>), that feed progress updates into the page state
  (\<^verbatim>\<open>App.tsx\<close>: \<^verbatim>\<open>runAutomation\<close>, \<^verbatim>\<open>onProgressCallback\<close>) and that poll a video
  generation job (\<^verbatim>\<open>components/ToolView.tsx\<close>: \<^verbatim>\<open>handleVideoGenerationSubmit\<close>,
  \<^verbatim>\<open>cleanupPolling\<close>).

  Conventions. JavaScript strings are \<^typ>\<open>string\<close>; an awaited call that may reject is a
  value of type \<open>thrown + 'a\<close> (\<open>Inl\<close> the rejection); \<^verbatim>\<open>undefined\<close> and \<^verbatim>\<open>null\<close> are
  \<open>None\<close> of an option type; component state is a record that each handler takes and
  returns. The hosted model behind every generation call is a parameter of the
  embedding: a record of functions from the call's arguments to its outcome.
\<close>

subsection \<open>Thrown values\<close>

text \<open>
  What a \<^verbatim>\<open>catch\<close> clause receives: an instance of \<^verbatim>\<open>Error\<close> with its message, or
  any other thrown value (for which \<^verbatim>\<open>err instanceof Error\<close> is false).
\<close>

datatype thrown = Error (message: string) | NonError

subsection \<open>Response types of the generators (types.ts)\<close>

text \<open>
  The interfaces as declared. The numeric fields of \<^verbatim>\<open>TitleOption\<close> (\<^verbatim>\<open>char_count\<close>,
  \<^verbatim>\<open>scores\<close>) are never read by the code embedded here and are left out.
\<close>

record TitleOption =
  "text" :: string
  style_tags :: "string list"
  keyword_included :: bool
  rationale :: string

record TopPick =
  text_pick :: string
  reason :: string

record TitleGenerationResponse =
  titles :: "TitleOption list"
  top_picks :: "TopPick list"
  best_title :: TopPick
  "notes" :: string

record Chapter =
  title_chapter :: string
  timestamp :: string

record DescriptionGenerationResponse =
  description :: string
  chapters :: "Chapter list"
  hashtags :: "string list"
  keywords_description :: "string list"
  pinned_comment :: string

record ScriptMetadata =
  estimated_duration :: string
  tone :: string
  language :: string

record ScriptSection =
  id_section :: string
  time_range :: string
  narration :: string
  on_screen_text :: string
  visuals_broll :: "string list"
  graphics :: "string list"
  sfx_music :: "string list"
  beats :: "string list option"

record ScriptCTA =
  time_range_cta :: "string option"
  narration_cta :: string
  on_screen_text_cta :: string
  visuals_broll_cta :: "string list"

record ScriptAlternatives =
  hooks :: "string list"
  ctas :: "string list"
  title_ideas :: "string list"

record ScriptGenerationResponse =
  metadata :: ScriptMetadata
  "sections" :: "ScriptSection list"
  midroll_cta :: ScriptCTA
  final_cta :: ScriptCTA
  alternatives_script :: ScriptAlternatives

subsection \<open>Workflow data (geminiService.ts, types.ts)\<close>

datatype StepStatus = Pending | Running | Selecting | Completed | Failed

record ListContent =
  alternatives :: "string list"
  chosen :: "string option"

text \<open>
  \<^verbatim>\<open>StepContent = string | string[] | ListContent | null\<close>. \<^verbatim>\<open>runStep\<close> casts whatever
  its step returned to \<^verbatim>\<open>StepContent\<close> (\<^verbatim>\<open>result as StepContent\<close>), so at run time the
  content can also be one of the three response objects; they get a constructor each.
\<close>

datatype StepContent =
    Null
  | Text string
  | TextList "string list"
  | Selection ListContent
  | TitleObject TitleGenerationResponse
  | ScriptObject ScriptGenerationResponse
  | DescriptionObject DescriptionGenerationResponse

record WorkflowProgressUpdate =
  stepId :: string
  status :: StepStatus
  "data" :: "StepContent option"

record WorkflowStep =
  id_step :: string
  "label" :: string
  status_step :: StepStatus
  content :: StepContent

subsection \<open>The generation backend and the event log\<close>

text \<open>
  Each generator (\<^verbatim>\<open>generateTitles\<close>, \<^verbatim>\<open>generateHooks\<close>, \<^verbatim>\<open>generateScript\<close>,
  \<^verbatim>\<open>generateDescription\<close>, \<^verbatim>\<open>generateTags\<close>) sends a prompt to the hosted model, parses
  the answer and either returns a value of its declared type or throws. The
  orchestrator sees only that outcome, so the backend is a record of outcome functions.
\<close>

record backend =
  generateTitles :: "string \<Rightarrow> thrown + TitleGenerationResponse"
  generateHooks :: "string \<Rightarrow> thrown + string list"
  generateScript :: "string \<Rightarrow> thrown + ScriptGenerationResponse"
  generateDescription :: "string option \<Rightarrow> string option \<Rightarrow> thrown + DescriptionGenerationResponse"
  generateTags :: "string \<Rightarrow> thrown + string list"

datatype call =
    GenerateTitles string
  | GenerateHooks string
  | GenerateScript string
  | GenerateDescription "string option" "string option"
  | GenerateTags string

text \<open>
  Everything observable about a run, in the order it happens: the progress updates
  handed to \<^verbatim>\<open>onProgress\<close> and the generator calls that were started.
\<close>

datatype event = Progress WorkflowProgressUpdate | Call call

type_synonym log = "event list"

definition onProgress :: "WorkflowProgressUpdate \<Rightarrow> log \<Rightarrow> log" where
  "onProgress update l = l @ [Progress update]"

definition invoke :: "call \<Rightarrow> (thrown + 'a) \<Rightarrow> log \<Rightarrow> (thrown + 'a) \<times> log" where
  "invoke c outcome l = (outcome, l @ [Call c])"

fun emitted :: "log \<Rightarrow> WorkflowProgressUpdate list" where
  "emitted [] = []"
| "emitted (Progress u # l) = u # emitted l"
| "emitted (Call c # l) = emitted l"

fun calls :: "log \<Rightarrow> call list" where
  "calls [] = []"
| "calls (Progress u # l) = calls l"
| "calls (Call c # l) = c # calls l"

text \<open>The step a generator call belongs to, and whether the backend rejects it.\<close>

fun step_of :: "call \<Rightarrow> string" where
  "step_of (GenerateTitles t) = ''titles''"
| "step_of (GenerateHooks t) = ''hooks''"
| "step_of (GenerateScript t) = ''script''"
| "step_of (GenerateDescription tr t) = ''description''"
| "step_of (GenerateTags t) = ''tags''"

fun rejects :: "backend \<Rightarrow> call \<Rightarrow> bool" where
  "rejects be (GenerateTitles t) = isl (generateTitles be t)"
| "rejects be (GenerateHooks t) = isl (generateHooks be t)"
| "rejects be (GenerateScript t) = isl (generateScript be t)"
| "rejects be (GenerateDescription tr t) = isl (generateDescription be tr t)"
| "rejects be (GenerateTags t) = isl (generateTags be t)"

subsection \<open>runStep and runFullWorkflow (geminiService.ts)\<close>

text \<open>
  \<^verbatim>\<open>typeof result === 'object' && result !== null && 'alternatives' in result\<close>, on the
  declared shapes: a string is not an object; \<^verbatim>\<open>null\<close> is excluded; an array has no key
  \<^verbatim>\<open>alternatives\<close>; of the interfaces only \<^verbatim>\<open>ListContent\<close> and
  \<^verbatim>\<open>ScriptGenerationResponse\<close> declare a field of that name. A response is taken to
  carry exactly the fields its interface declares.
\<close>

fun isSelectionObject :: "StepContent \<Rightarrow> bool" where
  "isSelectionObject Null = False"
| "isSelectionObject (Text s) = False"
| "isSelectionObject (TextList xs) = False"
| "isSelectionObject (Selection lc) = True"
| "isSelectionObject (TitleObject r) = False"
| "isSelectionObject (ScriptObject r) = True"
| "isSelectionObject (DescriptionObject r) = False"

text \<open>
  \<^verbatim>\<open>runStep(stepId, fn)\<close>: emit Running, await \<open>fn\<close>; on success emit Completed with the
  result unless it is a selection object, and return the result; on rejection emit
  Failed and rethrow. \<open>as_content\<close> is the cast \<^verbatim>\<open>result as StepContent\<close> at the type of
  the step.
\<close>

definition runStep ::
  "string \<Rightarrow> ('a \<Rightarrow> StepContent) \<Rightarrow> (log \<Rightarrow> (thrown + 'a) \<times> log) \<Rightarrow> log \<Rightarrow> (thrown + 'a) \<times> log"
where
  "runStep sid as_content fn l =
     (let l1 = onProgress \<lparr>stepId = sid, status = Running, data = None\<rparr> l in
      case fn l1 of
        (Inr result, l2) \<Rightarrow>
          (Inr result,
           if \<not> isSelectionObject (as_content result)
           then onProgress \<lparr>stepId = sid, status = Completed, data = Some (as_content result)\<rparr> l2
           else l2)
      | (Inl err, l2) \<Rightarrow>
          (Inl err, onProgress \<lparr>stepId = sid, status = Failed, data = None\<rparr> l2))"

text \<open>Sequencing of awaited calls inside one \<^verbatim>\<open>try\<close> block: a rejection skips the rest.\<close>

definition and_then ::
  "(log \<Rightarrow> (thrown + 'a) \<times> log) \<Rightarrow> ('a \<Rightarrow> log \<Rightarrow> (thrown + 'b) \<times> log) \<Rightarrow> log \<Rightarrow> (thrown + 'b) \<times> log"
where
  "and_then m f l = (case m l of (Inl err, l1) \<Rightarrow> (Inl err, l1) | (Inr a, l1) \<Rightarrow> f a l1)"

definition emit :: "WorkflowProgressUpdate \<Rightarrow> log \<Rightarrow> (thrown + unit) \<times> log" where
  "emit update l = (Inr (), onProgress update l)"

text \<open>The body of the \<^verbatim>\<open>try\<close> block of \<^verbatim>\<open>runFullWorkflow\<close>, statement by statement.\<close>

definition workflow_body :: "backend \<Rightarrow> string \<Rightarrow> log \<Rightarrow> (thrown + unit) \<times> log" where
  "workflow_body be topic =
     and_then (runStep ''titles'' TitleObject (invoke (GenerateTitles topic) (generateTitles be topic)))
       (\<lambda>titleResponse.
     let titles_texts = map text (titles titleResponse) in
     and_then (emit \<lparr>stepId = ''titles'', status = Selecting,
                     data = Some (Selection \<lparr>alternatives = titles_texts, chosen = None\<rparr>)\<rparr>)
       (\<lambda>_.
     let bestTitle = text_pick (best_title titleResponse) in
     and_then (emit \<lparr>stepId = ''titles'', status = Completed,
                     data = Some (Selection \<lparr>alternatives = titles_texts, chosen = Some bestTitle\<rparr>)\<rparr>)
       (\<lambda>_.
     and_then (runStep ''hooks'' TextList (invoke (GenerateHooks bestTitle) (generateHooks be bestTitle)))
       (\<lambda>hooks.
     and_then (runStep ''script'' ScriptObject (invoke (GenerateScript bestTitle) (generateScript be bestTitle)))
       (\<lambda>scriptResponse.
     and_then (emit \<lparr>stepId = ''script'', status = Completed,
                     data = Some (Text ''Script generated successfully. View in the tool for full details.'')\<rparr>)
       (\<lambda>_.
     and_then (runStep ''description'' DescriptionObject
                 (invoke (GenerateDescription None (Some bestTitle)) (generateDescription be None (Some bestTitle))))
       (\<lambda>descriptionResponse.
     and_then (emit \<lparr>stepId = ''description'', status = Completed,
                     data = Some (Text (description descriptionResponse))\<rparr>)
       (\<lambda>_.
     and_then (runStep ''tags'' TextList (invoke (GenerateTags bestTitle) (generateTags be bestTitle)))
       (\<lambda>tags. Pair (Inr ()))))))))))"

text \<open>
  \<^verbatim>\<open>runFullWorkflow\<close>: the \<^verbatim>\<open>try\<close> block, and the \<^verbatim>\<open>catch\<close> that only logs to the
  console. The first component is the settlement of the returned promise.
\<close>

definition runFullWorkflow :: "backend \<Rightarrow> string \<Rightarrow> log \<Rightarrow> (thrown + unit) \<times> log" where
  "runFullWorkflow be topic l =
     (case workflow_body be topic l of
        (Inl err, l1) \<Rightarrow> (Inr (), l1)
      | (Inr u, l1) \<Rightarrow> (Inr (), l1))"







subsection \<open>The automation page: runAutomation and onProgressCallback (App.tsx)\<close>

record app_state =
  agentPrompt :: string
  isLoadingAgent :: bool
  agentError :: "string option"
  workflowSteps :: "WorkflowStep list option"

definition initialSteps :: "WorkflowStep list" where
  "initialSteps =
     [\<lparr>id_step = ''titles'', label = ''Generating Viral Titles'', status_step = Pending, content = Null\<rparr>,
      \<lparr>id_step = ''hooks'', label = ''Creating Catchy Hooks'', status_step = Pending, content = Null\<rparr>,
      \<lparr>id_step = ''script'', label = ''Writing Full Script'', status_step = Pending, content = Null\<rparr>,
      \<lparr>id_step = ''description'', label = ''Drafting Video Description'', status_step = Pending, content = Null\<rparr>,
      \<lparr>id_step = ''tags'', label = ''Optimizing SEO Tags'', status_step = Pending, content = Null\<rparr>]"

text \<open>
  The state updater that \<^verbatim>\<open>onProgressCallback\<close> hands to \<^verbatim>\<open>setWorkflowSteps\<close>:
  \<^verbatim>\<open>prevSteps\<close> may be \<^verbatim>\<open>null\<close>; \<^verbatim>\<open>update.data\<close> may be \<^verbatim>\<open>undefined\<close> (\<open>None\<close>).
\<close>

definition onProgressCallback ::
  "WorkflowProgressUpdate \<Rightarrow> WorkflowStep list option \<Rightarrow> WorkflowStep list option"
where
  "onProgressCallback update prevSteps =
     (case prevSteps of
        None \<Rightarrow> None
      | Some steps \<Rightarrow>
          Some (map (\<lambda>step.
                  if id_step step = stepId update
                  then step\<lparr>status_step := status update,
                            content := (case data update of Some d \<Rightarrow> d | None \<Rightarrow> content step)\<rparr>
                  else step) steps))"

text \<open>The \<^verbatim>\<open>catch\<close> clause of \<^verbatim>\<open>runAutomation\<close>: steps still in flight become Failed.\<close>

definition mark_in_flight_failed :: "WorkflowStep list option \<Rightarrow> WorkflowStep list option" where
  "mark_in_flight_failed prev =
     map_option (map (\<lambda>s. if status_step s = Running \<or> status_step s = Selecting
                           then s\<lparr>status_step := Failed\<rparr> else s)) prev"

text \<open>
  \<^verbatim>\<open>runAutomation(topic)\<close>. \<^verbatim>\<open>!topic\<close> holds of the empty string only. The result is the
  page state once the returned promise has settled, with the events of this invocation.
  The progress sink is applied to the emitted updates in the order of emission.
\<close>

definition runAutomation :: "backend \<Rightarrow> string \<Rightarrow> app_state \<Rightarrow> app_state \<times> log" where
  "runAutomation be topic st =
     (if topic = [] then (st\<lparr>agentError := Some ''Please enter a video topic to automate.''\<rparr>, [])
      else if isLoadingAgent st \<and> agentPrompt st = topic then (st, [])
      else
        let st0 = st\<lparr>agentPrompt := topic, isLoadingAgent := True, agentError := None,
                     workflowSteps := None\<rparr>;
            st1 = st0\<lparr>workflowSteps := Some initialSteps\<rparr>;
            (outcome, l) = runFullWorkflow be topic [];
            st2 = st1\<lparr>workflowSteps := foldl (\<lambda>steps u. onProgressCallback u steps)
                                              (workflowSteps st1) (emitted l)\<rparr>;
            st3 = (case outcome of
                     Inr u \<Rightarrow> st2
                   | Inl err \<Rightarrow>
                       st2\<lparr>agentError := Some (case err of Error m \<Rightarrow> m
                                                | NonError \<Rightarrow> ''An unexpected error occurred during automation.''),
                           workflowSteps := mark_in_flight_failed (workflowSteps st2)\<rparr>)
        in (st3\<lparr>isLoadingAgent := False\<rparr>, l))"

subsection \<open>String helpers of the JavaScript runtime\<close>

text \<open>
  A \<^typ>\<open>char\<close> stands for one UTF-16 code unit below 256. \<^verbatim>\<open>String.prototype.trim\<close>
  strips white space and line terminators from both ends; below 256 these are TAB, LF,
  VT, FF, CR, SPACE and NBSP. \<^verbatim>\<open>includes\<close> is the substring test, \<^verbatim>\<open>join\<close> the
  concatenation with a separator.
\<close>

definition isWhiteSpace :: "char \<Rightarrow> bool" where
  "isWhiteSpace c \<longleftrightarrow> c \<in> set [CHR 0x09, CHR 0x0A, CHR 0x0B, CHR 0x0C, CHR 0x0D, CHR 0x20, CHR 0xA0]"

definition trim :: "string \<Rightarrow> string" where
  "trim s = rev (dropWhile isWhiteSpace (rev (dropWhile isWhiteSpace s)))"

fun includes_str :: "string \<Rightarrow> string \<Rightarrow> bool" where
  "includes_str [] needle = (needle = [])"
| "includes_str (c # cs) needle = (prefix needle (c # cs) \<or> includes_str cs needle)"

fun join :: "string list \<Rightarrow> string \<Rightarrow> string" where
  "join [] sep = []"
| "join [x] sep = x"
| "join (x # y # ys) sep = x @ sep @ join (y # ys) sep"

subsection \<open>selectBestOption (geminiService.ts)\<close>

text \<open>
  The chooser is the hosted model: it maps the prompt to the text of its answer, or the
  awaited call rejects (a missing \<^verbatim>\<open>response.text\<close> makes \<^verbatim>\<open>.trim()\<close> throw, which is a
  rejection as well). The second component of the result lists the prompts sent.
\<close>

definition chooser_prompt :: "string list \<Rightarrow> string \<Rightarrow> string" where
  "chooser_prompt options purpose =
     ''From the following list, select the single best option for the purpose of '' @ [CHR 0x22] @
     purpose @ [CHR 0x22] @
     ''. Return ONLY the selected option as a string, with no explanation or preamble.'' @
     [CHR 0x0A, CHR 0x0A] @ ''Options:'' @ [CHR 0x0A] @ ''- '' @ join options ([CHR 0x0A] @ ''- '')"

definition selectBestOption ::
  "(string \<Rightarrow> thrown + string) \<Rightarrow> string list \<Rightarrow> string \<Rightarrow> (thrown + string) \<times> string list"
where
  "selectBestOption chooser options purpose =
     (if length options = 0 then (Inl (Error ''Cannot select from an empty list.''), [])
      else if length options = 1 then (Inr (options ! 0), [])
      else
        (case chooser (chooser_prompt options purpose) of
           Inl err \<Rightarrow> (Inl err, [chooser_prompt options purpose])
         | Inr response_text \<Rightarrow>
             let choice = trim response_text in
             (Inr (if choice \<in> set options then choice else options ! 0),
              [chooser_prompt options purpose])))"

subsection \<open>parseJsonFromText (geminiService.ts)\<close>

text \<open>
  The values \<^verbatim>\<open>JSON.parse\<close> produces; \<open>'n\<close> is the type of numbers. \<^verbatim>\<open>JSON.parse\<close>
  itself belongs to the runtime and is a parameter: \<open>None\<close> stands for the
  \<^verbatim>\<open>SyntaxError\<close> it throws on text that is not JSON.
\<close>

datatype 'n json =
    JNull
  | JBool bool
  | JNumber 'n
  | JString string
  | JArray "'n json list"
  | JObject "(string \<times> 'n json) list"

definition fence_open :: string where
  "fence_open = ''```json'' @ [CHR 0x0A]"

definition fence_close :: string where
  "fence_close = [CHR 0x0A] @ ''```''"

text \<open>
  \<^verbatim>\<open>text.match(/```json\n([\s\S]*?)\n```/)\<close>, returning the capture group \<^verbatim>\<open>match[1]\<close>.
  The engine tries the start positions from left to right (\<open>match_fenced\<close>); at a start
  position the opening fence must match literally (\<open>match_here\<close>); the lazy group then
  takes as few characters as possible until the closing fence matches (\<open>lazy_until\<close>).
\<close>

fun lazy_until :: "string \<Rightarrow> string \<Rightarrow> string option" where
  "lazy_until closer [] = (if closer = [] then Some [] else None)"
| "lazy_until closer (c # cs) =
     (if prefix closer (c # cs) then Some [] else map_option ((#) c) (lazy_until closer cs))"

definition match_here :: "string \<Rightarrow> string option" where
  "match_here s =
     (if prefix fence_open s then lazy_until fence_close (drop (length fence_open) s) else None)"

fun match_fenced :: "string \<Rightarrow> string option" where
  "match_fenced [] = match_here []"
| "match_fenced (c # cs) =
     (case match_here (c # cs) of Some g \<Rightarrow> Some g | None \<Rightarrow> match_fenced cs)"

definition parseJsonFromText :: "(string \<Rightarrow> 'n json option) \<Rightarrow> string \<Rightarrow> 'n json" where
  "parseJsonFromText JSON_parse txt =
     (let jsonString = (case match_fenced txt of Some g \<Rightarrow> trim g | None \<Rightarrow> trim txt) in
      case JSON_parse jsonString of
        Some v \<Rightarrow> v
      | None \<Rightarrow> JNull)"

text \<open>
  In words, independently of the matcher: \<open>body\<close> is the content of the first fenced
  block of \<open>txt\<close> when \<open>txt\<close> splits into a prefix, the opening fence, \<open>body\<close>, the
  closing fence and a rest, such that no other split of that form starts further to
  the left, and none starting at the same place has a shorter content.
\<close>

definition first_fenced_block :: "string \<Rightarrow> string \<Rightarrow> bool" where
  "first_fenced_block txt body \<longleftrightarrow>
     (\<exists>pre post. txt = pre @ fence_open @ body @ fence_close @ post \<and>
        (\<forall>pre' body' post'. txt = pre' @ fence_open @ body' @ fence_close @ post' \<longrightarrow>
           length pre \<le> length pre' \<and> (length pre' = length pre \<longrightarrow> length body \<le> length body')))"

definition has_fenced_block :: "string \<Rightarrow> bool" where
  "has_fenced_block txt \<longleftrightarrow> (\<exists>pre body post. txt = pre @ fence_open @ body @ fence_close @ post)"

subsection \<open>The video generation poller (ToolView.tsx)\<close>

text \<open>
  The operation object of the video API, as far as the poller reads it:
  \<^verbatim>\<open>updatedOp.done\<close> and \<^verbatim>\<open>updatedOp.response?.generatedVideos?.[0]?.video?.uri\<close>.
\<close>

record Video =
  uri :: "string option"

record GeneratedVideo =
  video :: "Video option"

record VideosResponse =
  generatedVideos :: "GeneratedVideo list option"

record Operation =
  "done" :: bool
  response :: "VideosResponse option"

definition downloadLink :: "Operation \<Rightarrow> string option" where
  "downloadLink op =
     (case response op of
        None \<Rightarrow> None
      | Some r \<Rightarrow>
          (case generatedVideos r of
             None \<Rightarrow> None
           | Some [] \<Rightarrow> None
           | Some (g # gs) \<Rightarrow> (case video g of None \<Rightarrow> None | Some v \<Rightarrow> uri v)))"

text \<open>
  The state of the tool view that the handler touches. \<open>pollingIntervalRef\<close> is the ref
  holding the timer id; \<open>timers\<close> are the interval timers alive in the window, each with
  its id and its period in milliseconds; \<open>saved\<close> records the \<^verbatim>\<open>onSaveAsProject\<close> calls.
\<close>

record view_state =
  isLoading :: bool
  error :: "string option"
  generatedContent :: "string option"
  loadingMessage :: string
  hasApiKey :: bool
  pollingIntervalRef :: "nat option"
  timers :: "(nat \<times> nat) list"
  saved :: "(string \<times> string \<times> string) list"

text \<open>
  The world outside the handler: \<^verbatim>\<open>process.env.API_KEY\<close>, the start call, and the
  download \<^verbatim>\<open>fetch(...)\<close>, \<^verbatim>\<open>.blob()\<close>, \<^verbatim>\<open>URL.createObjectURL\<close> taken together, from the
  requested URL to the object URL or a rejection.
\<close>

record poll_env =
  API_KEY :: "string option"
  startVideoGeneration :: "string \<Rightarrow> thrown + Operation"
  fetch_video :: "string \<Rightarrow> thrown + string"

text \<open>
  \<^verbatim>\<open>downloadLink && process.env.API_KEY\<close> is truthy when both strings are present and
  not empty; the download URL is then \<^verbatim>\<open>`${downloadLink}&key=${process.env.API_KEY}`\<close>.
\<close>

definition download_url :: "poll_env \<Rightarrow> Operation \<Rightarrow> string option" where
  "download_url env op =
     (case downloadLink op of
        None \<Rightarrow> None
      | Some link \<Rightarrow>
          (case API_KEY env of
             None \<Rightarrow> None
           | Some key \<Rightarrow> if link \<noteq> [] \<and> key \<noteq> [] then Some (link @ ''&key='' @ key) else None))"

definition cleanupPolling :: "view_state \<Rightarrow> view_state" where
  "cleanupPolling st =
     (case pollingIntervalRef st of
        None \<Rightarrow> st
      | Some i \<Rightarrow>
          if i \<noteq> 0
          then st\<lparr>timers := filter (\<lambda>t. fst t \<noteq> i) (timers st), pollingIntervalRef := None\<rparr>
          else st)"

definition credential_signature :: string where
  "credential_signature = ''Requested entity was not found''"

definition is_credential_error :: "thrown \<Rightarrow> bool" where
  "is_credential_error e \<longleftrightarrow>
     (case e of Error m \<Rightarrow> includes_str m credential_signature | NonError \<Rightarrow> False)"

text \<open>The \<^verbatim>\<open>catch (pollError)\<close> clause of the interval callback.\<close>

definition poll_catch :: "thrown \<Rightarrow> view_state \<Rightarrow> view_state" where
  "poll_catch pollError st =
     (if is_credential_error pollError
      then (cleanupPolling
              (st\<lparr>error := Some ''Your API key is invalid or has expired. Please select a new one.'',
                  hasApiKey := False\<rparr>))\<lparr>isLoading := False\<rparr>
      else st\<lparr>loadingMessage := ''A temporary issue occurred. Still trying...''\<rparr>)"

text \<open>
  One run of the interval callback; \<open>check\<close> is the outcome of
  \<^verbatim>\<open>checkVideoGenerationStatus(initialOp)\<close> at this tick.
\<close>

definition poll_tick ::
  "poll_env \<Rightarrow> string \<Rightarrow> string \<Rightarrow> (thrown + Operation) \<Rightarrow> view_state \<Rightarrow> view_state"
where
  "poll_tick env toolId prompt check st =
     (let st1 = st\<lparr>loadingMessage := ''Checking progress... Your video is being created.''\<rparr> in
      case check of
        Inl pollError \<Rightarrow> poll_catch pollError st1
      | Inr updatedOp \<Rightarrow>
          if done updatedOp then
            let st2 = (cleanupPolling st1)\<lparr>loadingMessage := ''Finalizing video...''\<rparr> in
            (case download_url env updatedOp of
               Some url \<Rightarrow>
                 (case fetch_video env url of
                    Inl pollError \<Rightarrow> poll_catch pollError st2
                  | Inr videoUrl \<Rightarrow>
                      st2\<lparr>generatedContent := Some videoUrl,
                          saved := saved st2 @ [(prompt, toolId, videoUrl)],
                          isLoading := False\<rparr>)
             | None \<Rightarrow>
                 poll_catch (Error ''Video generation finished, but no download link was found.'') st2)
          else st1)"

text \<open>
  \<^verbatim>\<open>handleVideoGenerationSubmit\<close> up to the installation of the timer; \<open>tid\<close> is the id
  that \<^verbatim>\<open>window.setInterval\<close> returns.
\<close>

definition handleVideoGenerationSubmit ::
  "poll_env \<Rightarrow> string \<Rightarrow> nat \<Rightarrow> view_state \<Rightarrow> view_state"
where
  "handleVideoGenerationSubmit env prompt tid st =
     (if prompt = [] then st\<lparr>error := Some ''Please enter a prompt to generate the video.''\<rparr>
      else
        let st1 = st\<lparr>isLoading := True, error := None, generatedContent := None,
                     loadingMessage := ''Initializing video generation...''\<rparr> in
        case startVideoGeneration env prompt of
          Inr initialOp \<Rightarrow>
            st1\<lparr>loadingMessage :=
                   ''Video generation started. This process can take several minutes. Please wait...'',
                 pollingIntervalRef := Some tid,
                 timers := timers st1 @ [(tid, 10000)]\<rparr>
        | Inl err \<Rightarrow>
            st1\<lparr>error := Some (case err of Error m \<Rightarrow> m | NonError \<Rightarrow> ''Failed to start video generation.''),
                 hasApiKey := (if is_credential_error err then False else hasApiKey st1),
                 isLoading := False\<rparr>)"

text \<open>
  The timer \<open>tid\<close> over time: one status-check outcome per period; the callback runs
  only while \<open>tid\<close> is among the live timers. Ticks are taken one after the other: a
  callback is taken to finish before the next period ends.
\<close>

fun run_timer ::
  "poll_env \<Rightarrow> string \<Rightarrow> string \<Rightarrow> nat \<Rightarrow> (thrown + Operation) list \<Rightarrow> view_state \<Rightarrow> view_state"
where
  "run_timer env toolId prompt tid [] st = st"
| "run_timer env toolId prompt tid (check # checks) st =
     (if tid \<in> fst ` set (timers st)
      then run_timer env toolId prompt tid checks (poll_tick env toolId prompt check st)
      else st)"

subsection \<open>Concrete inputs\<close>

text \<open>
  A title response as in the laptop scenario of the specification, one whose best title
  is not among its titles, and backends that answer every call, no call, or every call
  but the hooks call.
\<close>

definition title_option :: "string \<Rightarrow> TitleOption" where
  "title_option t = \<lparr>text = t, style_tags = [], keyword_included = True, rationale = []\<rparr>"

definition laptop_titles :: TitleGenerationResponse where
  "laptop_titles =
     \<lparr>titles = [title_option ''10 Reasons'', title_option ''Is This Laptop Worth It?'',
                 title_option ''Laptop Review 2024''],
      top_picks = [],
      best_title = \<lparr>text_pick = ''Is This Laptop Worth It?'', reason = ''question''\<rparr>,
      notes = []\<rparr>"

definition stray_titles :: TitleGenerationResponse where
  "stray_titles = laptop_titles\<lparr>best_title := \<lparr>text_pick = ''Worth It?'', reason = ''short''\<rparr>\<rparr>"

definition example_cta :: ScriptCTA where
  "example_cta =
     \<lparr>time_range_cta = None, narration_cta = ''Subscribe'', on_screen_text_cta = ''Subscribe'',
      visuals_broll_cta = []\<rparr>"

definition example_script :: ScriptGenerationResponse where
  "example_script =
     \<lparr>metadata = \<lparr>estimated_duration = ''00:07:30'', tone = ''friendly'', language = ''en''\<rparr>,
      sections = [],
      midroll_cta = example_cta,
      final_cta = example_cta,
      alternatives_script = \<lparr>hooks = [], ctas = [], title_ideas = []\<rparr>\<rparr>"

definition example_description :: DescriptionGenerationResponse where
  "example_description =
     \<lparr>description = ''An honest look at the laptop.'', chapters = [], hashtags = [],
      keywords_description = [], pinned_comment = []\<rparr>"

definition backend_ok :: backend where
  "backend_ok =
     \<lparr>generateTitles = (\<lambda>t. Inr laptop_titles),
      generateHooks = (\<lambda>t. Inr [''Stop scrolling.'']),
      generateScript = (\<lambda>t. Inr example_script),
      generateDescription = (\<lambda>tr t. Inr example_description),
      generateTags = (\<lambda>t. Inr [''laptop'', ''review''])\<rparr>"

definition backend_down :: backend where
  "backend_down =
     \<lparr>generateTitles = (\<lambda>t. Inl (Error ''503'')),
      generateHooks = (\<lambda>t. Inl (Error ''503'')),
      generateScript = (\<lambda>t. Inl (Error ''503'')),
      generateDescription = (\<lambda>tr t. Inl (Error ''503'')),
      generateTags = (\<lambda>t. Inl (Error ''503''))\<rparr>"

definition backend_hooks_down :: backend where
  "backend_hooks_down = backend_ok\<lparr>generateHooks := (\<lambda>t. Inl (Error ''503''))\<rparr>"

definition backend_stray :: backend where
  "backend_stray = backend_ok\<lparr>generateTitles := (\<lambda>t. Inr stray_titles)\<rparr>"

definition app_initial :: app_state where
  "app_initial = \<lparr>agentPrompt = [], isLoadingAgent = False, agentError = None, workflowSteps = None\<rparr>"

definition view_initial :: view_state where
  "view_initial =
     \<lparr>isLoading = False, error = None, generatedContent = None, loadingMessage = [],
      hasApiKey = True, pollingIntervalRef = None, timers = [], saved = []\<rparr>"

definition env_ok :: poll_env where
  "env_ok =
     \<lparr>API_KEY = Some ''key'',
      startVideoGeneration = (\<lambda>p. Inr \<lparr>done = False, response = None\<rparr>),
      fetch_video = (\<lambda>u. Inr ''blob:video'')\<rparr>"

definition hooks_down_log :: log where
  "hooks_down_log = snd (runFullWorkflow backend_hooks_down ''review of a new laptop'' [])"

definition laptop_log :: log where
  "laptop_log = snd (runFullWorkflow backend_ok ''review of a new laptop'' [])"

definition hooks_running :: WorkflowProgressUpdate where
  "hooks_running = \<lparr>stepId = ''hooks'', status = Running, data = None\<rparr>"

definition titles_chosen :: WorkflowProgressUpdate where
  "titles_chosen =
     \<lparr>stepId = ''titles'', status = Completed,
      data = Some (Selection \<lparr>alternatives = [''10 Reasons'', ''Is This Laptop Worth It?'', ''Laptop Review 2024''],
                              chosen = Some ''Is This Laptop Worth It?''\<rparr>)\<rparr>"

text \<open>A chooser that answers with a string that is not on the list.\<close>

definition chooser_off_list :: "string \<Rightarrow> thrown + string" where
  "chooser_off_list prompt = Inr '' Option C ''"

text \<open>
  A reply of the hosted model with a fenced block, and a stand-in for \<^verbatim>\<open>JSON.parse\<close>
  that accepts two texts and treats every other text as a syntax error.
\<close>

definition fenced_reply :: string where
  "fenced_reply =
     ''Here you go:'' @ [CHR 0x0A] @ ''```json'' @ [CHR 0x0A] @ '' [1] '' @ [CHR 0x0A] @ ''```'' @
     [CHR 0x0A] @ ''Bye''"

definition parse_two_texts :: "string \<Rightarrow> int json option" where
  "parse_two_texts s =
     (if s = ''[1]'' then Some (JArray [JNumber 1]) else if s = ''null'' then Some JNull else None)"

text \<open>The tool view right after a video job was started and timer 7 installed.\<close>

definition polling_view :: view_state where
  "polling_view = handleVideoGenerationSubmit env_ok ''a cat'' 7 view_initial"

section \<open>Properties of the orchestrator\<close>

lemmas workflow_defs =
  runFullWorkflow_def workflow_body_def and_then_def runStep_def emit_def invoke_def onProgress_def

lemmas example_defs =
  backend_ok_def laptop_titles_def title_option_def example_script_def example_description_def
  example_cta_def

subsection \<open>The shape of every run\<close>










subsection \<open>Claim C1: the lifecycle of a step\<close>




subsection \<open>Claim C2: a rejected call ends the run, and the promise resolves\<close>

lemma run_resolves: "fst (runFullWorkflow be topic l) = Inr ()"
  unfolding runFullWorkflow_def by (simp split: prod.splits sum.splits)

lemma run_rejected_call_last:
  assumes "Call c \<in> set (snd (runFullWorkflow be topic []))" "rejects be c"
  shows "suffix [Call c, Progress \<lparr>stepId = step_of c, status = Failed, data = None\<rparr>]
           (snd (runFullWorkflow be topic []))"
  using assms unfolding workflow_defs
  by (auto simp: Let_def suffix_to_prefix split: prod.splits sum.splits)

text \<open>
  Claim C2. The promise returned by \<^const>\<open>runFullWorkflow\<close> resolves for every backend
  and topic. If a generator call that the run made is rejected by the backend, the
  log of the run ends with that call followed by the Failed update of the call's step:
  Failed is emitted for that step, and no later update, Running included, and no
  later call exists.
\<close>

theorem workflow_failure_contained:
  "fst (runFullWorkflow be topic []) = Inr () \<and>
   (\<forall>c. Call c \<in> set (snd (runFullWorkflow be topic [])) \<and> rejects be c \<longrightarrow>
      (\<exists>pre. snd (runFullWorkflow be topic []) =
         pre @ [Call c, Progress \<lparr>stepId = step_of c, status = Failed, data = None\<rparr>]))"
  using run_resolves[of be topic "[]"] run_rejected_call_last[of _ be topic]
  unfolding suffix_def by blast

theorem workflow_failure_contained_witness:
  "Call (GenerateHooks ''Is This Laptop Worth It?'') \<in> set hooks_down_log \<and>
   rejects backend_hooks_down (GenerateHooks ''Is This Laptop Worth It?'') \<and>
   (\<exists>pre. hooks_down_log =
      pre @ [Call (GenerateHooks ''Is This Laptop Worth It?''),
             Progress \<lparr>stepId = ''hooks'', status = Failed, data = None\<rparr>]) \<and>
   fst (runFullWorkflow backend_hooks_down ''review of a new laptop'' []) = Inr ()"
proof -
  have made: "Call (GenerateHooks ''Is This Laptop Worth It?'') \<in> set hooks_down_log"
    unfolding hooks_down_log_def workflow_defs backend_hooks_down_def example_defs
    by (simp add: Let_def)
  have rejected: "rejects backend_hooks_down (GenerateHooks ''Is This Laptop Worth It?'')"
    by (simp add: backend_hooks_down_def example_defs)
  from workflow_failure_contained[of backend_hooks_down "''review of a new laptop''"] made rejected
  show ?thesis
    unfolding hooks_down_log_def by fastforce
qed

subsection \<open>Claim C3: the chosen title and the alternatives\<close>

text \<open>
  Claim C3 as stated makes every non-null \<open>chosen\<close> a member of \<open>alternatives\<close>. The
  orchestrator takes \<open>chosen\<close> from \<^verbatim>\<open>best_title.text\<close> and \<open>alternatives\<close> from the
  texts of \<^verbatim>\<open>titles\<close> of the same response and compares them nowhere: a response whose
  best title is worded differently from every listed title yields a Completed update
  whose choice is not among its alternatives.
\<close>

theorem chosen_not_among_alternatives:
  "Progress \<lparr>stepId = ''titles'', status = Completed,
      data = Some (Selection \<lparr>alternatives = [''10 Reasons'', ''Is This Laptop Worth It?'', ''Laptop Review 2024''],
                              chosen = Some ''Worth It?''\<rparr>)\<rparr>
     \<in> set (snd (runFullWorkflow backend_stray ''review of a new laptop'' [])) \<and>
   ''Worth It?'' \<notin> set [''10 Reasons'', ''Is This Laptop Worth It?'', ''Laptop Review 2024'']"
  unfolding workflow_defs backend_stray_def stray_titles_def example_defs by (simp add: Let_def)

lemma selection_update_shape:
  assumes "Progress u \<in> set (snd (runFullWorkflow be topic []))"
    and "data u = Some (Selection lc)"
  shows "\<exists>r. generateTitles be topic = Inr r \<and> stepId u = ''titles'' \<and>
           alternatives lc = map text (titles r) \<and>
           (status u = Selecting \<and> chosen lc = None \<or>
            status u = Completed \<and> chosen lc = Some (text_pick (best_title r)))"
  using assms unfolding workflow_defs
  by (auto simp: Let_def split: prod.splits sum.splits)

text \<open>
  Claim C3, amended. Every update that carries a selection result belongs to the titles
  step of a run whose title call returned a response \<open>r\<close>; its alternatives are the
  texts of the titles of \<open>r\<close>; it is either the Selecting update, with no choice, or the
  Completed update, whose choice is the text of the best title of \<open>r\<close>. So the choice
  is a member of the alternatives whenever the best title of \<open>r\<close> is one of its titles.
\<close>

theorem selection_result_from_title_response:
  assumes "Progress u \<in> set (snd (runFullWorkflow be topic []))"
    and "data u = Some (Selection lc)"
  shows "\<exists>r. generateTitles be topic = Inr r \<and> stepId u = ''titles'' \<and>
           alternatives lc = map text (titles r) \<and>
           (status u = Selecting \<and> chosen lc = None \<or>
            status u = Completed \<and> chosen lc = Some (text_pick (best_title r))) \<and>
           (text_pick (best_title r) \<in> set (map text (titles r)) \<longrightarrow>
              (\<forall>c. chosen lc = Some c \<longrightarrow> c \<in> set (alternatives lc)))"
proof -
  from selection_update_shape[OF assms] obtain r where
    r: "generateTitles be topic = Inr r" "stepId u = ''titles''"
       "alternatives lc = map text (titles r)"
       "status u = Selecting \<and> chosen lc = None \<or>
        status u = Completed \<and> chosen lc = Some (text_pick (best_title r))"
    by blast
  have "c \<in> set (alternatives lc)"
    if "text_pick (best_title r) \<in> set (map text (titles r))" "chosen lc = Some c" for c
    using that r(3,4) by auto
  with r show ?thesis by blast
qed

theorem selection_result_from_title_response_witness:
  "Progress titles_chosen \<in> set laptop_log \<and>
   data titles_chosen =
     Some (Selection \<lparr>alternatives = [''10 Reasons'', ''Is This Laptop Worth It?'', ''Laptop Review 2024''],
                       chosen = Some ''Is This Laptop Worth It?''\<rparr>) \<and>
   generateTitles backend_ok ''review of a new laptop'' = Inr laptop_titles \<and>
   text_pick (best_title laptop_titles) \<in> set (map text (titles laptop_titles)) \<and>
   ''Is This Laptop Worth It?'' \<in> set [''10 Reasons'', ''Is This Laptop Worth It?'', ''Laptop Review 2024'']"
proof -
  have emitted_it: "Progress titles_chosen \<in> set (snd (runFullWorkflow backend_ok ''review of a new laptop'' []))"
    unfolding workflow_defs example_defs titles_chosen_def by (simp add: Let_def)
  have carries: "data titles_chosen =
     Some (Selection \<lparr>alternatives = [''10 Reasons'', ''Is This Laptop Worth It?'', ''Laptop Review 2024''],
                       chosen = Some ''Is This Laptop Worth It?''\<rparr>)"
    by (simp add: titles_chosen_def)
  from selection_result_from_title_response[OF emitted_it carries] emitted_it carries
  show ?thesis
    unfolding laptop_log_def by (simp add: example_defs)
qed

subsection \<open>Claim C6: the later steps run on the chosen title\<close>



section \<open>Properties of the automation page\<close>

subsection \<open>Claim C9: what a progress update changes\<close>

text \<open>
  Claim C9. The updater built by \<^verbatim>\<open>onProgressCallback\<close> maps \<^verbatim>\<open>null\<close> to \<^verbatim>\<open>null\<close>, and a
  step list to a list of the same length with the same ids and labels at the same
  positions. A step whose id differs from the update's \<open>stepId\<close> is unchanged. A step
  whose id equals it gets the update's status, and gets the update's data as content
  only when the update carries data; otherwise its content is unchanged.
\<close>

theorem onProgressCallback_frame:
  "onProgressCallback update None = None \<and>
   (\<exists>steps'. onProgressCallback update (Some steps) = Some steps' \<and>
      length steps' = length steps \<and>
      (\<forall>i < length steps.
         id_step (steps' ! i) = id_step (steps ! i) \<and>
         label (steps' ! i) = label (steps ! i) \<and>
         (id_step (steps ! i) \<noteq> stepId update \<longrightarrow> steps' ! i = steps ! i) \<and>
         (id_step (steps ! i) = stepId update \<longrightarrow>
            status_step (steps' ! i) = status update \<and>
            content (steps' ! i) = (case data update of Some d \<Rightarrow> d | None \<Rightarrow> content (steps ! i)))))"
  by (simp add: onProgressCallback_def)

theorem onProgressCallback_frame_witness:
  "(1::nat) < length initialSteps \<and>
   id_step (initialSteps ! 1) = stepId hooks_running \<and>
   id_step (initialSteps ! 0) \<noteq> stepId hooks_running \<and>
   (\<exists>steps'. onProgressCallback hooks_running (Some initialSteps) = Some steps' \<and>
      length steps' = 5 \<and>
      steps' ! 0 = initialSteps ! 0 \<and>
      status_step (steps' ! 1) = Running \<and>
      content (steps' ! 1) = Null \<and>
      label (steps' ! 1) = ''Creating Catchy Hooks'')"
  using onProgressCallback_frame[of hooks_running initialSteps]
  by (auto simp: initialSteps_def hooks_running_def)

subsection \<open>Claim C5: the topic guard\<close>

text \<open>
  Claim C5 as stated covers every empty or whitespace-only topic. The guard of
  \<^verbatim>\<open>runAutomation\<close> is \<^verbatim>\<open>if (!topic)\<close>, which holds of the empty string only, and
  \<^verbatim>\<open>runFullWorkflow\<close> has no guard of its own: for the topic that is a single space the
  title step is started, the title generator is called, and updates are emitted.
\<close>

theorem blank_topic_runs_counterexample:
  "trim '' '' = [] \<and>
   emitted (snd (runAutomation backend_down '' '' app_initial)) =
     [\<lparr>stepId = ''titles'', status = Running, data = None\<rparr>,
      \<lparr>stepId = ''titles'', status = Failed, data = None\<rparr>] \<and>
   calls (snd (runAutomation backend_down '' '' app_initial)) = [GenerateTitles '' '']"
  by (simp add: runAutomation_def workflow_defs backend_down_def app_initial_def trim_def
      isWhiteSpace_def Let_def)

text \<open>
  Claim C5, amended. For the empty topic string \<^verbatim>\<open>runAutomation\<close> stores the validation
  message in \<open>agentError\<close>, changes nothing else in the page state, and returns before
  anything runs: no step list is created, no generator is called and no progress
  update is emitted.
\<close>

theorem empty_topic_rejected:
  "runAutomation be [] st =
     (st\<lparr>agentError := Some ''Please enter a video topic to automate.''\<rparr>, [])"
  by (simp add: runAutomation_def)

theorem empty_topic_rejected_witness:
  "emitted (snd (runAutomation backend_ok [] app_initial)) = [] \<and>
   calls (snd (runAutomation backend_ok [] app_initial)) = [] \<and>
   workflowSteps (fst (runAutomation backend_ok [] app_initial)) = None \<and>
   agentError (fst (runAutomation backend_ok [] app_initial)) =
     Some ''Please enter a video topic to automate.''"
  using empty_topic_rejected[of backend_ok app_initial]
  by (simp add: app_initial_def)

section \<open>Properties of the selection helper\<close>

subsection \<open>Claim C4: selectBestOption\<close>

text \<open>
  The chooser is consulted once, and only for two or more candidates; when that call
  rejects, there is no reply to validate and the rejection is passed on.
\<close>

lemma selectBestOption_chooser_rejects:
  "2 \<le> length options \<Longrightarrow> chooser (chooser_prompt options purpose) = Inl err \<Longrightarrow>
     selectBestOption chooser options purpose = (Inl err, [chooser_prompt options purpose])"
  by (cases options) (auto simp: selectBestOption_def)

lemma selectBestOption_prompts:
  "snd (selectBestOption chooser options purpose) =
     (if 2 \<le> length options then [chooser_prompt options purpose] else [])"
proof (cases options)
  case Nil
  then show ?thesis by (simp add: selectBestOption_def)
next
  case (Cons x xs)
  then show ?thesis
    by (cases xs) (auto simp: selectBestOption_def Let_def split: sum.splits)
qed

text \<open>
  Claim C4. On the empty list \<^verbatim>\<open>selectBestOption\<close> throws, sending nothing to the
  chooser. On a one-element list it returns the element, sending nothing to the
  chooser. On a list of two or more candidates, whatever string the chooser returns,
  the result is a member of the list: the trimmed reply when that is a candidate, and
  the first candidate otherwise.
\<close>

theorem selectBestOption_cases:
  "selectBestOption chooser [] purpose = (Inl (Error ''Cannot select from an empty list.''), []) \<and>
   selectBestOption chooser [x] purpose = (Inr x, []) \<and>
   (2 \<le> length options \<and> chooser (chooser_prompt options purpose) = Inr reply \<longrightarrow>
      (\<exists>c \<in> set options. fst (selectBestOption chooser options purpose) = Inr c) \<and>
      (trim reply \<in> set options \<longrightarrow>
         fst (selectBestOption chooser options purpose) = Inr (trim reply)) \<and>
      (trim reply \<notin> set options \<longrightarrow>
         fst (selectBestOption chooser options purpose) = Inr (hd options)))"
  by (cases options) (auto simp: selectBestOption_def Let_def hd_conv_nth)

theorem selectBestOption_cases_witness:
  "(2::nat) \<le> length [''Option A'', ''Option B''] \<and>
   chooser_off_list (chooser_prompt [''Option A'', ''Option B''] ''a viral title'') = Inr '' Option C '' \<and>
   trim '' Option C '' \<notin> set [''Option A'', ''Option B''] \<and>
   fst (selectBestOption chooser_off_list [''Option A'', ''Option B''] ''a viral title'') = Inr ''Option A'' \<and>
   selectBestOption chooser_off_list [''Option A''] ''a viral title'' = (Inr ''Option A'', [])"
proof -
  have reply: "chooser_off_list (chooser_prompt [''Option A'', ''Option B''] ''a viral title'') = Inr '' Option C ''"
    by (simp add: chooser_off_list_def)
  have off: "trim '' Option C '' \<notin> set [''Option A'', ''Option B'']"
    by (simp add: trim_def isWhiteSpace_def)
  from selectBestOption_cases[of chooser_off_list "''a viral title''" "''Option A''"
      "[''Option A'', ''Option B'']" "'' Option C ''"] reply off
  show ?thesis by simp
qed

subsection \<open>Claim C10: parseJsonFromText\<close>

lemma lazy_until_sound:
  "lazy_until closer s = Some b \<Longrightarrow> \<exists>post. s = b @ closer @ post"
proof (induction s arbitrary: b)
  case Nil
  then show ?case by (auto split: if_splits)
next
  case (Cons c cs)
  show ?case
  proof (cases "prefix closer (c # cs)")
    case True
    with Cons.prems show ?thesis by (auto simp: prefix_def)
  next
    case False
    with Cons.prems obtain b' where b': "lazy_until closer cs = Some b'" "b = c # b'"
      by auto
    from Cons.IH[OF b'(1)] b'(2) show ?thesis by auto
  qed
qed

lemma lazy_until_least:
  "s = b' @ closer @ post' \<Longrightarrow> \<exists>b. lazy_until closer s = Some b \<and> length b \<le> length b'"
proof (induction s arbitrary: b')
  case Nil
  then show ?case by auto
next
  case (Cons c cs)
  show ?case
  proof (cases "prefix closer (c # cs)")
    case True
    then show ?thesis by simp
  next
    case False
    with Cons.prems have "b' \<noteq> []" by (auto simp: prefix_def)
    then obtain b'' where b'': "b' = c # b''" "cs = b'' @ closer @ post'"
      using Cons.prems by (cases b') auto
    from Cons.IH[OF b''(2)] obtain b where "lazy_until closer cs = Some b" "length b \<le> length b''"
      by blast
    with False b''(1) show ?thesis by simp
  qed
qed

lemma match_here_sound:
  assumes "match_here s = Some g"
  shows "\<exists>post. s = fence_open @ g @ fence_close @ post"
proof -
  from assms have opened: "prefix fence_open s"
    and closed: "lazy_until fence_close (drop (length fence_open) s) = Some g"
    by (auto simp: match_here_def split: if_splits)
  from opened obtain r where r: "s = fence_open @ r" by (auto simp: prefix_def)
  with closed have "lazy_until fence_close r = Some g" by simp
  from lazy_until_sound[OF this] r show ?thesis by auto
qed

lemma match_here_least:
  assumes "s = fence_open @ g' @ fence_close @ post'"
  shows "\<exists>g. match_here s = Some g \<and> length g \<le> length g'"
proof -
  have "lazy_until fence_close (drop (length fence_open) s)
          = lazy_until fence_close (g' @ fence_close @ post')"
    using assms by simp
  moreover have "prefix fence_open s" using assms by simp
  ultimately show ?thesis
    using lazy_until_least[of "g' @ fence_close @ post'" g' fence_close post']
    by (simp add: match_here_def)
qed

lemma fence_open_nonempty: "fence_open \<noteq> []"
  by (simp add: fence_open_def)

lemma match_fenced_sound:
  "match_fenced s = Some g \<Longrightarrow>
     \<exists>pre post. s = pre @ fence_open @ g @ fence_close @ post \<and>
       (\<forall>pre' g' post'. s = pre' @ fence_open @ g' @ fence_close @ post' \<longrightarrow>
          length pre \<le> length pre' \<and> (length pre' = length pre \<longrightarrow> length g \<le> length g'))"
proof (induction s)
  case Nil
  from match_here_sound[of "[]" g] Nil show ?case
    using fence_open_nonempty by auto
next
  case (Cons c cs)
  show ?case
  proof (cases "match_here (c # cs)")
    case (Some h)
    with Cons.prems have hg: "h = g" by simp
    from match_here_sound[OF Some] hg obtain post
      where post: "c # cs = [] @ fence_open @ g @ fence_close @ post"
      by auto
    have "length g \<le> length g'"
      if "c # cs = pre' @ fence_open @ g' @ fence_close @ post'" "length pre' = 0"
      for pre' g' post'
    proof -
      from that have "c # cs = fence_open @ g' @ fence_close @ post'" by simp
      from match_here_least[OF this] Some hg show ?thesis by auto
    qed
    with post show ?thesis
      by (intro exI[of _ "[]"] exI[of _ post]) auto
  next
    case None
    with Cons.prems have rec: "match_fenced cs = Some g" by simp
    from Cons.IH[OF rec] obtain pre post where
      dec: "cs = pre @ fence_open @ g @ fence_close @ post" and
      least: "\<And>pre' g' post'. cs = pre' @ fence_open @ g' @ fence_close @ post' \<Longrightarrow>
          length pre \<le> length pre' \<and> (length pre' = length pre \<longrightarrow> length g \<le> length g')"
      by blast
    have "length (c # pre) \<le> length pre' \<and>
          (length pre' = length (c # pre) \<longrightarrow> length g \<le> length g')"
      if d: "c # cs = pre' @ fence_open @ g' @ fence_close @ post'" for pre' g' post'
    proof (cases pre')
      case Nil
      with d have "c # cs = fence_open @ g' @ fence_close @ post'" by simp
      from match_here_least[OF this] None show ?thesis by auto
    next
      case (Cons d' pre'')
      with d have "cs = pre'' @ fence_open @ g' @ fence_close @ post'" by simp
      from least[OF this] Cons show ?thesis by simp
    qed
    with dec show ?thesis
      by (intro exI[of _ "c # pre"] exI[of _ post]) auto
  qed
qed

lemma match_fenced_complete:
  "s = pre' @ fence_open @ g' @ fence_close @ post' \<Longrightarrow> \<exists>g. match_fenced s = Some g"
proof (induction s arbitrary: pre')
  case Nil
  then show ?case using fence_open_nonempty by simp
next
  case (Cons c cs)
  show ?case
  proof (cases "match_here (c # cs)")
    case (Some h)
    then show ?thesis by simp
  next
    case None
    have "pre' \<noteq> []"
    proof
      assume "pre' = []"
      with Cons.prems have "c # cs = fence_open @ g' @ fence_close @ post'" by simp
      from match_here_least[OF this] None show False by auto
    qed
    then obtain d pre'' where "pre' = d # pre''" by (cases pre') auto
    with Cons.prems have "cs = pre'' @ fence_open @ g' @ fence_close @ post'" by simp
    from Cons.IH[OF this] None show ?thesis by simp
  qed
qed

text \<open>The matcher finds exactly the first fenced block, and fails exactly when there is none.\<close>

lemma match_fenced_first: "match_fenced s = Some g \<longleftrightarrow> first_fenced_block s g"
proof
  assume "match_fenced s = Some g"
  from match_fenced_sound[OF this] show "first_fenced_block s g"
    unfolding first_fenced_block_def by blast
next
  assume "first_fenced_block s g"
  then obtain pre post where
    dec: "s = pre @ fence_open @ g @ fence_close @ post" and
    least: "\<And>pre' g' post'. s = pre' @ fence_open @ g' @ fence_close @ post' \<Longrightarrow>
          length pre \<le> length pre' \<and> (length pre' = length pre \<longrightarrow> length g \<le> length g')"
    unfolding first_fenced_block_def by blast
  from match_fenced_complete[OF dec] obtain h where h: "match_fenced s = Some h" by blast
  from match_fenced_sound[OF h] obtain pre2 post2 where
    dec2: "s = pre2 @ fence_open @ h @ fence_close @ post2" and
    least2: "\<And>pre' g' post'. s = pre' @ fence_open @ g' @ fence_close @ post' \<Longrightarrow>
          length pre2 \<le> length pre' \<and> (length pre' = length pre2 \<longrightarrow> length h \<le> length g')"
    by blast
  from least[OF dec2] least2[OF dec] have lp: "length pre = length pre2" and lg: "length g = length h"
    by auto
  from dec dec2 lp have "pre = pre2"
    "fence_open @ g @ fence_close @ post = fence_open @ h @ fence_close @ post2"
    by auto
  with lg have "g = h" by auto
  with h show "match_fenced s = Some g" by simp
qed

lemma match_fenced_none: "match_fenced s = None \<longleftrightarrow> \<not> has_fenced_block s"
proof
  assume none: "match_fenced s = None"
  show "\<not> has_fenced_block s"
  proof
    assume "has_fenced_block s"
    then obtain pre g post where "s = pre @ fence_open @ g @ fence_close @ post"
      unfolding has_fenced_block_def by blast
    from match_fenced_complete[OF this] none show False by auto
  qed
next
  assume no_block: "\<not> has_fenced_block s"
  show "match_fenced s = None"
  proof (cases "match_fenced s")
    case None
    then show ?thesis .
  next
    case (Some g)
    from match_fenced_sound[OF Some] no_block show ?thesis
      unfolding has_fenced_block_def by blast
  qed
qed

text \<open>
  Claim C10. \<^verbatim>\<open>parseJsonFromText\<close> returns a value for every input string and every
  behaviour of \<^verbatim>\<open>JSON.parse\<close>. When the input has a fenced block, the result is what
  \<^verbatim>\<open>JSON.parse\<close> makes of the trimmed content of the first one, and \<^verbatim>\<open>null\<close> when
  \<^verbatim>\<open>JSON.parse\<close> throws on it. When the input has no fenced block, the same holds with
  the trimmed input in place of the content of the block.
\<close>

theorem parseJsonFromText_total:
  "(first_fenced_block txt body \<longrightarrow>
      parseJsonFromText JSON_parse txt =
        (case JSON_parse (trim body) of Some v \<Rightarrow> v | None \<Rightarrow> JNull)) \<and>
   (\<not> has_fenced_block txt \<longrightarrow>
      parseJsonFromText JSON_parse txt =
        (case JSON_parse (trim txt) of Some v \<Rightarrow> v | None \<Rightarrow> JNull))"
  using match_fenced_first[of "txt" body] match_fenced_none[of "txt"]
  by (auto simp: parseJsonFromText_def)

lemma fenced_reply_match: "match_fenced fenced_reply = Some '' [1] ''"
  by (simp add: fenced_reply_def match_here_def fence_open_def fence_close_def)

lemma plain_reply_match: "match_fenced ''not json'' = None"
  by (simp add: match_here_def fence_open_def fence_close_def)

theorem parseJsonFromText_total_witness:
  "first_fenced_block fenced_reply '' [1] '' \<and>
   parseJsonFromText parse_two_texts fenced_reply = JArray [JNumber 1] \<and>
   \<not> has_fenced_block ''not json'' \<and>
   parseJsonFromText parse_two_texts ''not json'' = JNull"
proof -
  have block: "first_fenced_block fenced_reply '' [1] ''"
    using fenced_reply_match match_fenced_first by blast
  have plain: "\<not> has_fenced_block ''not json''"
    using plain_reply_match match_fenced_none by blast
  from parseJsonFromText_total[of fenced_reply "'' [1] ''" parse_two_texts]
    parseJsonFromText_total[of "''not json''" "''''" parse_two_texts] block plain
  show ?thesis
    by (simp add: trim_def isWhiteSpace_def parse_two_texts_def)
qed

section \<open>Properties of the video poller\<close>

lemma includes_str_iff: "includes_str s needle \<longleftrightarrow> (\<exists>pre post. s = pre @ needle @ post)"
proof (induction s)
  case Nil
  then show ?case by auto
next
  case (Cons c cs)
  show ?case
  proof
    assume "includes_str (c # cs) needle"
    then consider "prefix needle (c # cs)" | "includes_str cs needle" by auto
    then show "\<exists>pre post. c # cs = pre @ needle @ post"
    proof cases
      case 1
      then obtain post where "c # cs = needle @ post" by (auto simp: prefix_def)
      then have "c # cs = [] @ needle @ post" by simp
      then show ?thesis by blast
    next
      case 2
      with Cons.IH obtain pre post where "cs = pre @ needle @ post" by blast
      then have "c # cs = (c # pre) @ needle @ post" by simp
      then show ?thesis by blast
    qed
  next
    assume "\<exists>pre post. c # cs = pre @ needle @ post"
    then obtain pre post where d: "c # cs = pre @ needle @ post" by blast
    show "includes_str (c # cs) needle"
    proof (cases pre)
      case Nil
      with d have "prefix needle (c # cs)" by (simp add: prefix_def)
      then show ?thesis by simp
    next
      case (Cons d' pre')
      with d have "cs = pre' @ needle @ post" by simp
      with Cons.IH show ?thesis by auto
    qed
  qed
qed

lemma run_timer_dead:
  "tid \<notin> fst ` set (timers st) \<Longrightarrow> run_timer env toolId prompt tid checks st = st"
  by (cases checks) auto

lemma polling_view_eq:
  "polling_view =
     \<lparr>isLoading = True, error = None, generatedContent = None,
      loadingMessage = ''Video generation started. This process can take several minutes. Please wait...'',
      hasApiKey = True, pollingIntervalRef = Some 7, timers = [(7, 10000)], saved = []\<rparr>"
  by (simp add: polling_view_def handleVideoGenerationSubmit_def env_ok_def view_initial_def)

subsection \<open>Claim C7: a finished job without a download link\<close>

text \<open>
  Claim C7 is about a status check that reports \<^verbatim>\<open>done\<close> with no video URI. Evaluated on
  the view that polls with timer 7: the tick clears the timer, so no further tick
  runs; the error \<^verbatim>\<open>Video generation finished, but no download link was found.\<close> is
  thrown inside the callback's own \<^verbatim>\<open>try\<close> and lands in its \<^verbatim>\<open>catch\<close>, which treats it
  as a transient failure: no error is set, the view keeps loading, and the message
  reads that polling is still going on.
\<close>

theorem done_without_link_is_swallowed:
  "timers polling_view = [(7, 10000)] \<and>
   timers (run_timer env_ok ''shorts-video-generator'' ''a cat'' 7
             [Inr \<lparr>done = True, response = None\<rparr>] polling_view) = [] \<and>
   pollingIntervalRef (run_timer env_ok ''shorts-video-generator'' ''a cat'' 7
             [Inr \<lparr>done = True, response = None\<rparr>] polling_view) = None \<and>
   error (run_timer env_ok ''shorts-video-generator'' ''a cat'' 7
             [Inr \<lparr>done = True, response = None\<rparr>] polling_view) = None \<and>
   isLoading (run_timer env_ok ''shorts-video-generator'' ''a cat'' 7
             [Inr \<lparr>done = True, response = None\<rparr>] polling_view) = True \<and>
   loadingMessage (run_timer env_ok ''shorts-video-generator'' ''a cat'' 7
             [Inr \<lparr>done = True, response = None\<rparr>] polling_view)
     = ''A temporary issue occurred. Still trying...''"
  unfolding polling_view_eq
  by (simp add: poll_tick_def poll_catch_def cleanupPolling_def download_url_def downloadLink_def
      is_credential_error_def credential_signature_def Let_def)

subsection \<open>Claim C8: errors of the status check\<close>

text \<open>
  Claim C8. Let the view poll with timer \<open>tid\<close>, and let the status check of a tick
  throw \<open>e\<close>. If \<open>e\<close> is not an \<^verbatim>\<open>Error\<close> whose message contains
  \<^verbatim>\<open>Requested entity was not found\<close>, the tick leaves the timers and the ref as they
  are, sets the still-trying message and touches neither the error nor the loading
  flag, and the timer goes on to its next tick. If \<open>e\<close> is an \<^verbatim>\<open>Error\<close> whose message
  contains that text, the same tick removes the timer and clears the ref, sets the
  key-expired error, withdraws \<open>hasApiKey\<close> (the signal to select a key again) and ends
  loading, and no later tick runs.
\<close>

theorem poll_error_handling:
  assumes "pollingIntervalRef st = Some tid" and "tid \<noteq> 0" and "(tid, 10000) \<in> set (timers st)"
  shows "((\<forall>pre post. e \<noteq> Error (pre @ ''Requested entity was not found'' @ post)) \<longrightarrow>
            timers (poll_tick env toolId prompt (Inl e) st) = timers st \<and>
            pollingIntervalRef (poll_tick env toolId prompt (Inl e) st) = Some tid \<and>
            loadingMessage (poll_tick env toolId prompt (Inl e) st)
              = ''A temporary issue occurred. Still trying...'' \<and>
            error (poll_tick env toolId prompt (Inl e) st) = error st \<and>
            isLoading (poll_tick env toolId prompt (Inl e) st) = isLoading st \<and>
            run_timer env toolId prompt tid (Inl e # checks) st =
              run_timer env toolId prompt tid checks (poll_tick env toolId prompt (Inl e) st)) \<and>
         (e = Error (pre @ ''Requested entity was not found'' @ post) \<longrightarrow>
            tid \<notin> fst ` set (timers (poll_tick env toolId prompt (Inl e) st)) \<and>
            pollingIntervalRef (poll_tick env toolId prompt (Inl e) st) = None \<and>
            error (poll_tick env toolId prompt (Inl e) st) =
              Some ''Your API key is invalid or has expired. Please select a new one.'' \<and>
            hasApiKey (poll_tick env toolId prompt (Inl e) st) = False \<and>
            isLoading (poll_tick env toolId prompt (Inl e) st) = False \<and>
            run_timer env toolId prompt tid (Inl e # checks) st = poll_tick env toolId prompt (Inl e) st)"
proof -
  have cred: "is_credential_error e \<longleftrightarrow>
      (\<exists>pre post. e = Error (pre @ ''Requested entity was not found'' @ post))"
    by (cases e) (auto simp: is_credential_error_def credential_signature_def includes_str_iff)
  have alive: "tid \<in> fst ` set (timers st)" using assms(3) by force
  show ?thesis
  proof (cases "is_credential_error e")
    case True
    let ?st' = "poll_tick env toolId prompt (Inl e) st"
    have dead: "tid \<notin> fst ` set (timers ?st')" and ref: "pollingIntervalRef ?st' = None"
      using True assms(1,2) by (auto simp: poll_tick_def poll_catch_def cleanupPolling_def)
    have rest: "error ?st' = Some ''Your API key is invalid or has expired. Please select a new one.''"
      "hasApiKey ?st' = False" "isLoading ?st' = False"
      using True assms(1,2) by (auto simp: poll_tick_def poll_catch_def cleanupPolling_def)
    have run: "run_timer env toolId prompt tid (Inl e # checks) st = ?st'"
      using alive run_timer_dead[OF dead] by simp
    have notall: "\<not> (\<forall>pre post. e \<noteq> Error (pre @ ''Requested entity was not found'' @ post))"
      using True cred by blast
    from notall dead ref rest run show ?thesis by blast
  next
    case False
    then have eq: "poll_tick env toolId prompt (Inl e) st =
        st\<lparr>loadingMessage := ''A temporary issue occurred. Still trying...''\<rparr>"
      by (simp add: poll_tick_def poll_catch_def)
    have keep: "timers (poll_tick env toolId prompt (Inl e) st) = timers st"
      "pollingIntervalRef (poll_tick env toolId prompt (Inl e) st) = Some tid"
      "loadingMessage (poll_tick env toolId prompt (Inl e) st) = ''A temporary issue occurred. Still trying...''"
      "error (poll_tick env toolId prompt (Inl e) st) = error st"
      "isLoading (poll_tick env toolId prompt (Inl e) st) = isLoading st"
      unfolding eq using assms(1) by simp_all
    have run: "run_timer env toolId prompt tid (Inl e # checks) st =
        run_timer env toolId prompt tid checks (poll_tick env toolId prompt (Inl e) st)"
      using alive by simp
    have nocred: "e \<noteq> Error (pre @ ''Requested entity was not found'' @ post)"
      using False cred by blast
    from keep run nocred show ?thesis by blast
  qed
qed

lemma unavailable_is_transient:
  "Error ''503 Service Unavailable'' \<noteq> Error (pre @ ''Requested entity was not found'' @ post)"
proof
  assume "Error ''503 Service Unavailable'' = Error (pre @ ''Requested entity was not found'' @ post)"
  then have "includes_str ''503 Service Unavailable'' ''Requested entity was not found''"
    unfolding includes_str_iff by blast
  then show False by simp
qed

theorem poll_error_handling_witness:
  "pollingIntervalRef polling_view = Some 7 \<and> (7::nat) \<noteq> 0 \<and>
   (7, 10000) \<in> set (timers polling_view) \<and>
   timers (poll_tick env_ok ''shorts-video-generator'' ''a cat''
             (Inl (Error ''503 Service Unavailable'')) polling_view) = [(7, 10000)] \<and>
   loadingMessage (poll_tick env_ok ''shorts-video-generator'' ''a cat''
             (Inl (Error ''503 Service Unavailable'')) polling_view)
     = ''A temporary issue occurred. Still trying...'' \<and>
   timers (poll_tick env_ok ''shorts-video-generator'' ''a cat''
             (Inl (Error (''404: '' @ ''Requested entity was not found'' @ ''.''))) polling_view) = [] \<and>
   error (poll_tick env_ok ''shorts-video-generator'' ''a cat''
             (Inl (Error (''404: '' @ ''Requested entity was not found'' @ ''.''))) polling_view)
     = Some ''Your API key is invalid or has expired. Please select a new one.''"
proof -
  have ref: "pollingIntervalRef polling_view = Some 7" and pos: "(7::nat) \<noteq> 0"
    and alive: "(7, 10000) \<in> set (timers polling_view)"
    by (simp_all add: polling_view_eq)
  have transient: "\<forall>pre post. Error ''503 Service Unavailable''
      \<noteq> Error (pre @ ''Requested entity was not found'' @ post)"
    using unavailable_is_transient by blast
  from poll_error_handling[OF ref pos alive, of "Error ''503 Service Unavailable''"
      env_ok "''shorts-video-generator''" "''a cat''" "[]"] transient
  have one: "timers (poll_tick env_ok ''shorts-video-generator'' ''a cat''
             (Inl (Error ''503 Service Unavailable'')) polling_view) = timers polling_view"
    "loadingMessage (poll_tick env_ok ''shorts-video-generator'' ''a cat''
             (Inl (Error ''503 Service Unavailable'')) polling_view)
     = ''A temporary issue occurred. Still trying...''"
    by blast+
  from poll_error_handling[OF ref pos alive,
      of "Error (''404: '' @ ''Requested entity was not found'' @ ''.'')"
      env_ok "''shorts-video-generator''" "''a cat''" "[]" "''404: ''" "''.''"]
  have two: "7 \<notin> fst ` set (timers (poll_tick env_ok ''shorts-video-generator'' ''a cat''
             (Inl (Error (''404: '' @ ''Requested entity was not found'' @ ''.''))) polling_view))"
    "error (poll_tick env_ok ''shorts-video-generator'' ''a cat''
             (Inl (Error (''404: '' @ ''Requested entity was not found'' @ ''.''))) polling_view)
     = Some ''Your API key is invalid or has expired. Please select a new one.''"
    by blast+
  have cleared: "timers (poll_tick env_ok ''shorts-video-generator'' ''a cat''
             (Inl (Error (''404: '' @ ''Requested entity was not found'' @ ''.''))) polling_view) = []"
    unfolding polling_view_eq
    by (simp add: poll_tick_def poll_catch_def cleanupPolling_def is_credential_error_def
        credential_signature_def)
  from ref pos alive one two(2) cleared show ?thesis
    by (simp add: polling_view_eq)
qed

end
